theory Spec2Isabelle
  imports Main "HOL-Library.AList"
begin

section \<open>Values, requests and responses\<close>

text \<open>
  The server (index.js) is a set of Express route handlers over two MongoDB collections.
  A JavaScript value, as it arrives in a JSON body, a parsed query string, a parsed cookie
  or a stored document. Numbers are integers here: the handlers only test them for
  truthiness.
\<close>

datatype jvalue =
    JUndefined
  | JNull
  | JBool bool
  | JNum int
  | JStr string
  | JOid string
  | JArr "jvalue list"
  | JObj "(string \<times> jvalue) list"

type_synonym doc = "(string \<times> jvalue) list"

text \<open>The exceptions that the handlers can raise or catch.\<close>

datatype exn = TypeError | BSONError | MongoError

text \<open>JavaScript truthiness, as tested by \<^verbatim>\<open>!x\<close> and \<^verbatim>\<open>x || y\<close>.\<close>

fun truthy :: "jvalue \<Rightarrow> bool" where
  "truthy JUndefined = False"
| "truthy JNull = False"
| "truthy (JBool b) = b"
| "truthy (JNum n) = (n \<noteq> 0)"
| "truthy (JStr s) = (s \<noteq> [])"
| "truthy (JOid h) = True"
| "truthy (JArr xs) = True"
| "truthy (JObj fs) = True"

text \<open>
  Strict equality \<^verbatim>\<open>===\<close>: primitives compare by value; objects and arrays compare by
  reference, and the two operands the handlers compare come from two separate parses
  (the token payload and the query string), so they are never the same object.
\<close>

fun strict_eq :: "jvalue \<Rightarrow> jvalue \<Rightarrow> bool" where
  "strict_eq JUndefined JUndefined = True"
| "strict_eq JNull JNull = True"
| "strict_eq (JBool a) (JBool b) = (a = b)"
| "strict_eq (JNum a) (JNum b) = (a = b)"
| "strict_eq (JStr a) (JStr b) = (a = b)"
| "strict_eq a b = False"

text \<open>Reading a key of an object that always exists (\<^verbatim>\<open>req.cookies\<close>, \<^verbatim>\<open>req.query\<close>).\<close>

definition field :: "doc \<Rightarrow> string \<Rightarrow> jvalue" where
  "field fs k = (case map_of fs k of None \<Rightarrow> JUndefined | Some v \<Rightarrow> v)"

text \<open>
  Property access \<^verbatim>\<open>v.k\<close> on any value, for the keys the handlers read (email, status):
  it raises a TypeError on undefined and null, and is undefined on a value that has no
  such key.
\<close>

fun get_prop :: "jvalue \<Rightarrow> string \<Rightarrow> exn + jvalue" where
  "get_prop JUndefined k = Inl TypeError"
| "get_prop JNull k = Inl TypeError"
| "get_prop (JObj fs) k = Inr (field fs k)"
| "get_prop v k = Inr JUndefined"

text \<open>\<^verbatim>\<open>a || b\<close>\<close>

definition js_or :: "jvalue \<Rightarrow> jvalue \<Rightarrow> jvalue" where
  "js_or a b = (if truthy a then a else b)"

record request =
  cookies :: doc
  query :: doc
  body :: jvalue
  params_id :: string
  decoded :: jvalue

datatype cookie_action =
    SetCookie string jvalue jvalue
  | ClearCookie string jvalue

record response =
  statusCode :: nat
  sent :: jvalue
  cookie :: "cookie_action list"

text \<open>\<^verbatim>\<open>res.status(n).send(v)\<close> and \<^verbatim>\<open>res.send(v)\<close> (status 200) with no cookie.\<close>

definition status_send :: "nat \<Rightarrow> jvalue \<Rightarrow> response" where
  "status_send n v = \<lparr>statusCode = n, sent = v, cookie = []\<rparr>"

definition send :: "jvalue \<Rightarrow> response" where
  "send v = status_send 200 v"

section \<open>The database and the libraries\<close>

record database =
  services :: "doc list"
  orders :: "doc list"

datatype collection = Services | Orders

text \<open>
  The query documents the handlers build:
  \<^verbatim>\<open>{ f: v }\<close>, \<^verbatim>\<open>{ f: { $regex: t, $options: o } }\<close>,
  \<^verbatim>\<open>{ $expr: { $regexMatch: { input: { $toString: "$f" }, regex: t, options: o } } }\<close>,
  \<^verbatim>\<open>{ $or: [...] }\<close>, and no filter at all.
\<close>

datatype cond =
    FieldEq string jvalue
  | FieldRegex string jvalue string
  | ExprRegexMatchToString string jvalue string
  | Or "cond list"
  | NoFilter

text \<open>What a handler asked of the outside world, in order.\<close>

datatype event =
    Find collection cond
  | FindOne collection cond "string list"
  | InsertOne collection jvalue
  | UpdateOneSet collection cond string jvalue
  | DeleteOne collection cond
  | JwtSign jvalue jvalue
  | JwtVerify jvalue

text \<open>
  The functions of the packages that index.js calls and that are not part of the
  repository are parameters of the model:
  \<^item> \<open>jwt_sign payload secret options\<close>: jsonwebtoken's \<^verbatim>\<open>sign\<close>, \<open>None\<close> when it throws;
  \<^item> \<open>jwt_verify token secret\<close>: jsonwebtoken's \<^verbatim>\<open>verify\<close>, the decoded payload, or
    \<open>None\<close> when it reports an error (bad signature, expired, malformed);
  \<^item> \<open>mkObjectId s\<close>: \<^verbatim>\<open>new ObjectId(s)\<close>, the identifier in hexadecimal, or \<open>None\<close> when
    the constructor throws because \<open>s\<close> is not a well-formed identifier;
  \<^item> \<open>regex t o\<close>: the database's regular expression \<open>t\<close> with options \<open>o\<close> as a
    predicate on strings, \<open>None\<close> when the database rejects the operand;
  \<^item> \<open>toString v\<close>: the database's \<^verbatim>\<open>$toString\<close>;
  \<^item> \<open>genId c\<close>: the identifier the driver generates for a document inserted into \<open>c\<close>;
  \<^item> \<open>secret\<close>: \<^verbatim>\<open>process.env.ACCESS_TOKEN_SECRET\<close>.
\<close>

record libs =
  jwt_sign :: "jvalue \<Rightarrow> string \<Rightarrow> jvalue \<Rightarrow> string option"
  jwt_verify :: "jvalue \<Rightarrow> string \<Rightarrow> jvalue option"
  mkObjectId :: "string \<Rightarrow> string option"
  regex :: "jvalue \<Rightarrow> string \<Rightarrow> (string \<Rightarrow> bool) option"
  toString :: "jvalue \<Rightarrow> string"
  genId :: "doc list \<Rightarrow> string"
  secret :: string

text \<open>
  What a handler did: the response it sent, or the exception that left it (an async
  handler without try/catch rejects and sends nothing itself); the calls it made; the
  database afterwards.
\<close>

datatype outcome = Sent response | Threw exn

record result =
  reply :: outcome
  trace :: "event list"
  store :: database

section \<open>The collection operations\<close>

text \<open>
  Modelled from the spec: the collection operations of the database driver (the mongodb
  package), which index.js calls and the repository does not contain. A collection is the
  list of its documents. \<^verbatim>\<open>find\<close> yields the documents that satisfy the filter and
  \<^verbatim>\<open>findOne\<close> the first of them; \<^verbatim>\<open>insertOne\<close> adds a document under a generated
  unique identifier; \<^verbatim>\<open>updateOne\<close> and \<^verbatim>\<open>deleteOne\<close> act on the first document that
  satisfies the filter; each is one atomic call that returns the raw result of the
  operation.

  The database accepts a query when every regular expression in it compiles.
\<close>

fun cond_ok :: "libs \<Rightarrow> cond \<Rightarrow> bool" where
  "cond_ok L (FieldEq f v) = True"
| "cond_ok L (FieldRegex f t opts) = (case regex L t opts of None \<Rightarrow> False | Some m \<Rightarrow> True)"
| "cond_ok L (ExprRegexMatchToString f t opts) =
     (case regex L t opts of None \<Rightarrow> False | Some m \<Rightarrow> True)"
| "cond_ok L (Or cs) = list_all (cond_ok L) cs"
| "cond_ok L NoFilter = True"

text \<open>
  Whether a document satisfies a query. A field is compared as it is stored: an equality
  condition holds when the field stores the operand, a regex condition when the field
  stores a string that the expression matches; the element-wise matching of array-valued
  fields is not part of this model. \<^verbatim>\<open>$regexMatch\<close> on \<^verbatim>\<open>$toString\<close> of a missing field
  is false.
\<close>

fun matches :: "libs \<Rightarrow> cond \<Rightarrow> doc \<Rightarrow> bool" where
  "matches L (FieldEq f v) d = (map_of d f = Some v)"
| "matches L (FieldRegex f t opts) d =
     (case regex L t opts of
        None \<Rightarrow> False
      | Some m \<Rightarrow> (case map_of d f of Some (JStr s) \<Rightarrow> m s | _ \<Rightarrow> False))"
| "matches L (ExprRegexMatchToString f t opts) d =
     (case regex L t opts of
        None \<Rightarrow> False
      | Some m \<Rightarrow> (case map_of d f of None \<Rightarrow> False | Some v \<Rightarrow> m (toString L v)))"
| "matches L (Or cs) d = list_ex (\<lambda>c. matches L c d) cs"
| "matches L NoFilter d = True"

text \<open>\<^verbatim>\<open>collection.find(q).toArray()\<close>\<close>

definition find_toArray :: "libs \<Rightarrow> cond \<Rightarrow> doc list \<Rightarrow> exn + doc list" where
  "find_toArray L q coll =
     (if cond_ok L q then Inr (filter (matches L q) coll) else Inl MongoError)"

text \<open>An inclusion projection keeps the listed fields and \<open>_id\<close>.\<close>

definition project :: "string list \<Rightarrow> doc \<Rightarrow> doc" where
  "project ks d = filter (\<lambda>(k, v). k = ''_id'' \<or> k \<in> set ks) d"

text \<open>\<^verbatim>\<open>collection.findOne(q, { projection })\<close>: the first match, or null.\<close>

definition findOne :: "libs \<Rightarrow> cond \<Rightarrow> string list \<Rightarrow> doc list \<Rightarrow> exn + jvalue" where
  "findOne L q ks coll =
     (if cond_ok L q then
        Inr (case List.find (matches L q) coll of
               None \<Rightarrow> JNull
             | Some d \<Rightarrow> JObj (project ks d))
      else Inl MongoError)"

text \<open>
  \<^verbatim>\<open>collection.insertOne(v)\<close>: the document gets a generated \<open>_id\<close> when it has none; an
  \<open>_id\<close> that is already in the collection is a duplicate-key error.
\<close>

definition insertOne :: "libs \<Rightarrow> jvalue \<Rightarrow> doc list \<Rightarrow> exn + jvalue \<times> doc list" where
  "insertOne L v coll =
     (case v of
        JObj fs \<Rightarrow>
          (let i = (case map_of fs ''_id'' of None \<Rightarrow> JOid (genId L coll) | Some j \<Rightarrow> j)
           in if list_ex (\<lambda>d. map_of d ''_id'' = Some i) coll then Inl MongoError
              else Inr (JObj [(''acknowledged'', JBool True), (''insertedId'', i)],
                        coll @ [AList.update ''_id'' i fs]))
      | _ \<Rightarrow> Inl MongoError)"

text \<open>\<^verbatim>\<open>$set: { f: v }\<close> on the first document that satisfies \<open>P\<close>.\<close>

fun set_first :: "(doc \<Rightarrow> bool) \<Rightarrow> string \<Rightarrow> jvalue \<Rightarrow> doc list \<Rightarrow> doc list" where
  "set_first P f v [] = []"
| "set_first P f v (d # ds) =
     (if P d then AList.update f v d # ds else d # set_first P f v ds)"

text \<open>\<^verbatim>\<open>collection.updateOne(q, { $set: { f: v } })\<close>\<close>

definition updateOne ::
  "libs \<Rightarrow> cond \<Rightarrow> string \<Rightarrow> jvalue \<Rightarrow> doc list \<Rightarrow> exn + jvalue \<times> doc list" where
  "updateOne L q f v coll =
     (if cond_ok L q then
        Inr (JObj [(''acknowledged'', JBool True),
                   (''modifiedCount'',
                      (case List.find (matches L q) coll of
                         None \<Rightarrow> JNum 0
                       | Some d \<Rightarrow> if map_of d f = Some v then JNum 0 else JNum 1)),
                   (''upsertedId'', JNull),
                   (''upsertedCount'', JNum 0),
                   (''matchedCount'',
                      (case List.find (matches L q) coll of
                         None \<Rightarrow> JNum 0
                       | Some d \<Rightarrow> JNum 1))],
             set_first (matches L q) f v coll)
      else Inl MongoError)"

fun remove_first :: "(doc \<Rightarrow> bool) \<Rightarrow> doc list \<Rightarrow> doc list" where
  "remove_first P [] = []"
| "remove_first P (d # ds) = (if P d then ds else d # remove_first P ds)"

text \<open>\<^verbatim>\<open>collection.deleteOne(q)\<close>\<close>

definition deleteOne :: "libs \<Rightarrow> cond \<Rightarrow> doc list \<Rightarrow> exn + jvalue \<times> doc list" where
  "deleteOne L q coll =
     (if cond_ok L q then
        Inr (JObj [(''acknowledged'', JBool True),
                   (''deletedCount'',
                      (case List.find (matches L q) coll of
                         None \<Rightarrow> JNum 0
                       | Some d \<Rightarrow> JNum 1))],
             remove_first (matches L q) coll)
      else Inl MongoError)"

section \<open>POST /jwt and POST /logout\<close>

definition error_only :: jvalue where
  "error_only = JObj [(''error'', JBool True)]"

definition error_message :: "string \<Rightarrow> jvalue" where
  "error_message m = JObj [(''error'', JBool True), (''message'', JStr m)]"

definition post_jwt :: "libs \<Rightarrow> request \<Rightarrow> database \<Rightarrow> result" where
  "post_jwt L req db =
     (let user = body req in
      (case get_prop user ''email'' of
         Inl e \<Rightarrow> \<lparr>reply = Sent (status_send 500 error_only), trace = [], store = db\<rparr>
       | Inr email \<Rightarrow>
          (if \<not> truthy email then
             \<lparr>reply = Sent (status_send 400 (error_message ''Invalid request'')),
              trace = [], store = db\<rparr>
           else
             (let payload = JObj [(''email'', email)];
                  options = JObj [(''expiresIn'', JStr ''1h''), (''algorithm'', JStr ''HS256'')]
              in (case jwt_sign L payload (secret L) options of
                    None \<Rightarrow>
                      \<lparr>reply = Sent (status_send 500 error_only),
                       trace = [JwtSign payload options], store = db\<rparr>
                  | Some token \<Rightarrow>
                      \<lparr>reply = Sent
                         \<lparr>statusCode = 200, sent = JObj [(''success'', JBool True)],
                          cookie = [SetCookie ''access_token'' (JStr token)
                            (JObj [(''httpOnly'', JBool True), (''secure'', JBool True),
                                   (''sameSite'', JStr ''none''),
                                   (''maxAge'', JNum (60 * 60 * 1000))])]\<rparr>,
                       trace = [JwtSign payload options], store = db\<rparr>)))))"

definition post_logout :: "libs \<Rightarrow> request \<Rightarrow> database \<Rightarrow> result" where
  "post_logout L req db =
     \<lparr>reply = Sent
        \<lparr>statusCode = 200, sent = JObj [(''success'', JBool True)],
         cookie = [ClearCookie ''access_token'' (JObj [(''maxAge'', JNum 0)])]\<rparr>,
      trace = [], store = db\<rparr>"

section \<open>The access guard\<close>

definition unauthorized :: "string \<Rightarrow> response" where
  "unauthorized m = status_send 401 (error_message m)"

text \<open>
  \<open>verifyJWT\<close> is the middleware in front of a guarded handler: \<open>next\<close> is the rest of
  the route, run on the request annotated with the decoded payload.
\<close>

definition verifyJWT ::
  "libs \<Rightarrow> (request \<Rightarrow> database \<Rightarrow> result) \<Rightarrow> request \<Rightarrow> database \<Rightarrow> result" where
  "verifyJWT L next req db =
     (let token = field (cookies req) ''access_token'' in
      (if \<not> truthy token then
         \<lparr>reply = Sent (unauthorized ''Unauthorized access by token''),
          trace = [], store = db\<rparr>
       else
         (case jwt_verify L token (secret L) of
            None \<Rightarrow>
              \<lparr>reply = Sent (unauthorized ''Unauthorized access by token''),
               trace = [JwtVerify token], store = db\<rparr>
          | Some dec \<Rightarrow>
              (let r = next (req\<lparr>decoded := dec\<rparr>) db
               in r\<lparr>trace := JwtVerify token # trace r\<rparr>))))"

section \<open>The service catalog\<close>

definition get_services :: "libs \<Rightarrow> request \<Rightarrow> database \<Rightarrow> result" where
  "get_services L req db =
     (let searchTerm = js_or (field (query req) ''search'') (JStr []);
          q = Or [FieldRegex ''title'' searchTerm ''i'',
                  FieldRegex ''service_id'' searchTerm ''i'',
                  FieldRegex ''price'' searchTerm ''i'',
                  FieldRegex ''description'' searchTerm ''i'',
                  ExprRegexMatchToString ''_id'' searchTerm ''i'']
      in (case find_toArray L q (services db) of
            Inl e \<Rightarrow>
              \<lparr>reply = Sent (status_send 500 (error_message ''Failed to fetch services'')),
               trace = [Find Services q], store = db\<rparr>
          | Inr found \<Rightarrow>
              \<lparr>reply = Sent (send (JArr (map JObj found))),
               trace = [Find Services q], store = db\<rparr>))"

text \<open>The same route in the second source file (part_000): no search, no try/catch.\<close>

definition get_services_part_000 :: "libs \<Rightarrow> request \<Rightarrow> database \<Rightarrow> result" where
  "get_services_part_000 L req db =
     (case find_toArray L NoFilter (services db) of
        Inl e \<Rightarrow> \<lparr>reply = Threw e, trace = [Find Services NoFilter], store = db\<rparr>
      | Inr found \<Rightarrow>
          \<lparr>reply = Sent (send (JArr (map JObj found))),
           trace = [Find Services NoFilter], store = db\<rparr>)"

definition get_services_id :: "libs \<Rightarrow> request \<Rightarrow> database \<Rightarrow> result" where
  "get_services_id L req db =
     (let id = params_id req in
      (case mkObjectId L id of
         None \<Rightarrow> \<lparr>reply = Threw BSONError, trace = [], store = db\<rparr>
       | Some oid \<Rightarrow>
           (let q = FieldEq ''_id'' (JOid oid);
                projection = [''title'', ''price'']
            in (case findOne L q projection (services db) of
                  Inl e \<Rightarrow>
                    \<lparr>reply = Threw e, trace = [FindOne Services q projection], store = db\<rparr>
                | Inr found \<Rightarrow>
                    \<lparr>reply = Sent (send found),
                     trace = [FindOne Services q projection], store = db\<rparr>))))"

section \<open>Orders\<close>

definition post_orders :: "libs \<Rightarrow> request \<Rightarrow> database \<Rightarrow> result" where
  "post_orders L req db =
     (let order = body req in
      (case insertOne L order (orders db) of
         Inl e \<Rightarrow>
           \<lparr>reply = Sent (status_send 500 (error_message ''Failed to create order'')),
            trace = [InsertOne Orders order], store = db\<rparr>
       | Inr (ack, os) \<Rightarrow>
           \<lparr>reply = Sent (send ack), trace = [InsertOne Orders order],
            store = db\<lparr>orders := os\<rparr>\<rparr>))"

text \<open>part_000: the same without try/catch.\<close>

definition post_orders_part_000 :: "libs \<Rightarrow> request \<Rightarrow> database \<Rightarrow> result" where
  "post_orders_part_000 L req db =
     (let order = body req in
      (case insertOne L order (orders db) of
         Inl e \<Rightarrow> \<lparr>reply = Threw e, trace = [InsertOne Orders order], store = db\<rparr>
       | Inr (ack, os) \<Rightarrow>
           \<lparr>reply = Sent (send ack), trace = [InsertOne Orders order],
            store = db\<lparr>orders := os\<rparr>\<rparr>))"

text \<open>The handler of GET /orders, behind \<open>verifyJWT\<close>.\<close>

definition get_orders_handler :: "libs \<Rightarrow> request \<Rightarrow> database \<Rightarrow> result" where
  "get_orders_handler L req db =
     (let email = field (query req) ''email'' in
      (if \<not> truthy email then
         \<lparr>reply = Sent (unauthorized ''Unauthorized access by email''),
          trace = [], store = db\<rparr>
       else
         (case get_prop (decoded req) ''email'' of
            Inl e \<Rightarrow> \<lparr>reply = Threw e, trace = [], store = db\<rparr>
          | Inr decoded_email \<Rightarrow>
              (if \<not> strict_eq decoded_email email then
                 \<lparr>reply = Sent (unauthorized ''Unauthorized access by email''),
                  trace = [], store = db\<rparr>
               else
                 (let q = FieldEq ''email'' email
                  in (case find_toArray L q (orders db) of
                        Inl e \<Rightarrow> \<lparr>reply = Threw e, trace = [Find Orders q], store = db\<rparr>
                      | Inr found \<Rightarrow>
                          \<lparr>reply = Sent (send (JArr (map JObj found))),
                           trace = [Find Orders q], store = db\<rparr>))))))"

definition get_orders :: "libs \<Rightarrow> request \<Rightarrow> database \<Rightarrow> result" where
  "get_orders L = verifyJWT L (get_orders_handler L)"

text \<open>part_000: unguarded.\<close>

definition get_orders_part_000 :: "libs \<Rightarrow> request \<Rightarrow> database \<Rightarrow> result" where
  "get_orders_part_000 L req db =
     (let email = field (query req) ''email'';
          q = FieldEq ''email'' email
      in (case find_toArray L q (orders db) of
            Inl e \<Rightarrow> \<lparr>reply = Threw e, trace = [Find Orders q], store = db\<rparr>
          | Inr found \<Rightarrow>
              \<lparr>reply = Sent (send (JArr (map JObj found))),
               trace = [Find Orders q], store = db\<rparr>))"

definition patch_orders_id :: "libs \<Rightarrow> request \<Rightarrow> database \<Rightarrow> result" where
  "patch_orders_id L req db =
     (let id = params_id req in
      (case get_prop (body req) ''status'' of
         Inl e \<Rightarrow> \<lparr>reply = Threw e, trace = [], store = db\<rparr>
       | Inr status \<Rightarrow>
           (case mkObjectId L id of
              None \<Rightarrow> \<lparr>reply = Threw BSONError, trace = [], store = db\<rparr>
            | Some oid \<Rightarrow>
                (let q = FieldEq ''_id'' (JOid oid)
                 in (case updateOne L q ''status'' status (orders db) of
                       Inl e \<Rightarrow>
                         \<lparr>reply = Threw e,
                          trace = [UpdateOneSet Orders q ''status'' status], store = db\<rparr>
                     | Inr (ack, os) \<Rightarrow>
                         \<lparr>reply = Sent (send ack),
                          trace = [UpdateOneSet Orders q ''status'' status],
                          store = db\<lparr>orders := os\<rparr>\<rparr>)))))"

definition delete_orders_id :: "libs \<Rightarrow> request \<Rightarrow> database \<Rightarrow> result" where
  "delete_orders_id L req db =
     (let id = params_id req in
      (case mkObjectId L id of
         None \<Rightarrow> \<lparr>reply = Threw BSONError, trace = [], store = db\<rparr>
       | Some oid \<Rightarrow>
           (let q = FieldEq ''_id'' (JOid oid)
            in (case deleteOne L q (orders db) of
                  Inl e \<Rightarrow> \<lparr>reply = Threw e, trace = [DeleteOne Orders q], store = db\<rparr>
                | Inr (ack, os) \<Rightarrow>
                    \<lparr>reply = Sent (send ack), trace = [DeleteOne Orders q],
                     store = db\<lparr>orders := os\<rparr>\<rparr>))))"

definition get_root :: "libs \<Rightarrow> request \<Rightarrow> database \<Rightarrow> result" where
  "get_root L req db =
     \<lparr>reply = Sent (send (JStr ''Hello World'')), trace = [], store = db\<rparr>"

section \<open>The routes\<close>

datatype route =
    POST_jwt
  | POST_logout
  | GET_services
  | GET_services_id
  | POST_orders
  | GET_orders
  | PATCH_orders_id
  | DELETE_orders_id
  | GET_root

text \<open>The routing table of index.js.\<close>

fun handle :: "libs \<Rightarrow> route \<Rightarrow> request \<Rightarrow> database \<Rightarrow> result" where
  "handle L POST_jwt = post_jwt L"
| "handle L POST_logout = post_logout L"
| "handle L GET_services = get_services L"
| "handle L GET_services_id = get_services_id L"
| "handle L POST_orders = post_orders L"
| "handle L GET_orders = get_orders L"
| "handle L PATCH_orders_id = patch_orders_id L"
| "handle L DELETE_orders_id = delete_orders_id L"
| "handle L GET_root = get_root L"

text \<open>
  The routing table of part_000, which has no /jwt and no /logout: Express answers a
  route that is not registered with 404 (the page it sends is not modelled).
\<close>

fun handle_part_000 :: "libs \<Rightarrow> route \<Rightarrow> request \<Rightarrow> database \<Rightarrow> result" where
  "handle_part_000 L GET_services = get_services_part_000 L"
| "handle_part_000 L GET_services_id = get_services_id L"
| "handle_part_000 L POST_orders = post_orders_part_000 L"
| "handle_part_000 L GET_orders = get_orders_part_000 L"
| "handle_part_000 L PATCH_orders_id = patch_orders_id L"
| "handle_part_000 L DELETE_orders_id = delete_orders_id L"
| "handle_part_000 L GET_root = get_root L"
| "handle_part_000 L r =
     (\<lambda>req db. \<lparr>reply = Sent (status_send 404 JUndefined), trace = [], store = db\<rparr>)"

text \<open>Whether an event writes to a collection, and whether it is a database call.\<close>

fun writes :: "collection \<Rightarrow> event \<Rightarrow> bool" where
  "writes c (InsertOne c' d) = (c = c')"
| "writes c (UpdateOneSet c' q f v) = (c = c')"
| "writes c (DeleteOne c' q) = (c = c')"
| "writes c e = False"

fun is_db_event :: "event \<Rightarrow> bool" where
  "is_db_event (JwtSign p opts) = False"
| "is_db_event (JwtVerify t) = False"
| "is_db_event e = True"

section \<open>The answer of the framework\<close>

text \<open>
  Modelled from the spec: the status of the HTTP response that the framework (Express,
  which is not part of the repository) gives the client for what a handler did. A
  response that the handler sent goes out with its status. A handler that is left by an
  exception "surfaces as a server error": the error handling of the framework answers
  with the status 500 ("unexpected failures return 500").
\<close>

definition http_status :: "result \<Rightarrow> nat" where
  "http_status r = (case reply r of Sent res \<Rightarrow> statusCode res | Threw e \<Rightarrow> 500)"

section \<open>A concrete instance\<close>

text \<open>
  An instance of the library parameters, to run the handlers on concrete requests: a
  token is the secret, a colon and the email; a pattern is a literal that matches the
  strings containing it; an identifier is 24 hexadecimal digits.
\<close>

fun strip_prefix :: "string \<Rightarrow> string \<Rightarrow> string option" where
  "strip_prefix [] s = Some s"
| "strip_prefix (p # ps) [] = None"
| "strip_prefix (p # ps) (c # cs) = (if p = c then strip_prefix ps cs else None)"

fun contains :: "string \<Rightarrow> string \<Rightarrow> bool" where
  "contains p [] = (p = [])"
| "contains p (c # cs) = (strip_prefix p (c # cs) \<noteq> None \<or> contains p cs)"

definition example_sign :: "jvalue \<Rightarrow> string \<Rightarrow> jvalue \<Rightarrow> string option" where
  "example_sign payload key options =
     (case get_prop payload ''email'' of
        Inr (JStr e) \<Rightarrow> Some (key @ '':'' @ e)
      | _ \<Rightarrow> None)"

definition example_verify :: "jvalue \<Rightarrow> string \<Rightarrow> jvalue option" where
  "example_verify token key =
     (case token of
        JStr t \<Rightarrow>
          (case strip_prefix (key @ '':'') t of
             None \<Rightarrow> None
           | Some e \<Rightarrow> Some (JObj [(''email'', JStr e)]))
      | _ \<Rightarrow> None)"

definition example_ObjectId :: "string \<Rightarrow> string option" where
  "example_ObjectId s =
     (if length s = 24 \<and> list_all (\<lambda>c. c \<in> set ''0123456789abcdefABCDEF'') s then Some s
      else None)"

definition example_regex :: "jvalue \<Rightarrow> string \<Rightarrow> (string \<Rightarrow> bool) option" where
  "example_regex t opts = (case t of JStr p \<Rightarrow> Some (contains p) | _ \<Rightarrow> None)"

definition example_toString :: "jvalue \<Rightarrow> string" where
  "example_toString v = (case v of JOid h \<Rightarrow> h | JStr s \<Rightarrow> s | _ \<Rightarrow> [])"

definition example_libs :: libs where
  "example_libs =
     \<lparr>jwt_sign = example_sign, jwt_verify = example_verify, mkObjectId = example_ObjectId,
      regex = example_regex, toString = example_toString,
      genId = (\<lambda>coll. ''0000000000000000000000ff''), secret = ''k''\<rparr>"

definition example_db :: database where
  "example_db =
     \<lparr>services =
        [[(''_id'', JOid ''0000000000000000000000a1''), (''title'', JStr ''Oil''),
          (''price'', JStr ''20'')],
         [(''_id'', JOid ''0000000000000000000000a2''), (''title'', JStr ''Brake''),
          (''price'', JStr ''35'')]],
      orders =
        [[(''_id'', JOid ''0000000000000000000000b1''), (''email'', JStr ''a@x''),
          (''status'', JStr ''pending'')],
         [(''_id'', JOid ''0000000000000000000000b2''), (''email'', JStr ''b@x'')],
         [(''_id'', JOid ''0000000000000000000000b3''), (''email'', JStr ''a@x'')]]\<rparr>"

text \<open>A request with no cookie, no query string, an empty JSON body.\<close>

definition example_request :: request where
  "example_request =
     \<lparr>cookies = [], query = [], body = JObj [], params_id = [], decoded = JUndefined\<rparr>"


section \<open>Auxiliary facts\<close>

text \<open>Two values that are strictly equal are the same value.\<close>

lemma strict_eq_imp_eq: "strict_eq a b \<Longrightarrow> a = b"
  by (cases a; cases b) simp_all

lemma matches_FieldEq: "matches L (FieldEq f v) = (\<lambda>d. map_of d f = Some v)"
  by (rule ext) simp









text \<open>\<open>set_first\<close> changes at most the first document that satisfies the predicate.\<close>

lemma length_set_first: "length (set_first P f v ds) = length ds"
  by (induction ds) simp_all

lemma set_first_other:
  "i < length ds \<Longrightarrow> \<not> P (ds ! i) \<Longrightarrow> set_first P f v ds ! i = ds ! i"
proof (induction ds arbitrary: i)
  case Nil
  then show ?case by simp
next
  case (Cons d ds)
  then show ?case by (cases i) auto
qed

lemma set_first_fields:
  "i < length ds \<Longrightarrow> k \<noteq> f \<Longrightarrow> map_of (set_first P f v ds ! i) k = map_of (ds ! i) k"
proof (induction ds arbitrary: i)
  case Nil
  then show ?case by simp
next
  case (Cons d ds)
  then show ?case by (cases i) (auto simp add: update_conv')
qed

lemma set_first_changed:
  "i < length ds \<Longrightarrow> set_first P f v ds ! i \<noteq> ds ! i \<Longrightarrow>
     P (ds ! i) \<and> (\<forall>j<i. \<not> P (ds ! j)) \<and> set_first P f v ds ! i = AList.update f v (ds ! i)"
proof (induction ds arbitrary: i)
  case Nil
  then show ?case by simp
next
  case (Cons d ds)
  show ?case
  proof (cases "P d")
    case True
    with Cons.prems show ?thesis by (cases i) auto
  next
    case False
    with Cons.prems obtain i' where i: "i = Suc i'" by (cases i) auto
    with Cons.prems False have "i' < length ds" "set_first P f v ds ! i' \<noteq> ds ! i'" by auto
    from Cons.IH[OF this] False i show ?thesis
      by (auto simp add: less_Suc_eq_0_disj)
  qed
qed

lemma set_first_hit:
  "i < length ds \<Longrightarrow> P (ds ! i) \<Longrightarrow> \<forall>j<i. \<not> P (ds ! j) \<Longrightarrow>
     set_first P f v ds ! i = AList.update f v (ds ! i)"
proof (induction ds arbitrary: i)
  case Nil
  then show ?case by simp
next
  case (Cons d ds)
  show ?case
  proof (cases i)
    case 0
    with Cons.prems show ?thesis by simp
  next
    case (Suc i')
    with Cons.prems have "\<not> P d" by auto
    moreover from Suc Cons.prems have "i' < length ds" "P (ds ! i')" "\<forall>j<i'. \<not> P (ds ! j)" by auto
    ultimately show ?thesis using Suc Cons.IH by simp
  qed
qed

text \<open>When the identifiers are distinct, the first match is the only match.\<close>

lemma distinct_map_nth:
  assumes "distinct (map g xs)" and "i < length xs" and "j < length xs"
    and "g (xs ! i) = g (xs ! j)"
  shows "i = j"
proof -
  from assms have "map g xs ! i = map g xs ! j" by simp
  with assms show ?thesis by (simp add: nth_eq_iff_index_eq del: nth_map)
qed

lemma set_first_unique:
  assumes "distinct (map (\<lambda>d. map_of d ''_id'') ds)" and "i < length ds"
    and "map_of (ds ! i) ''_id'' = Some x"
  shows "set_first (\<lambda>d. map_of d ''_id'' = Some x) f v ds ! i = AList.update f v (ds ! i)"
proof (rule set_first_hit)
  show "i < length ds" by fact
  show "map_of (ds ! i) ''_id'' = Some x" by fact
  show "\<forall>j<i. map_of (ds ! j) ''_id'' \<noteq> Some x"
  proof (intro allI impI notI)
    fix j assume j: "j < i" and h: "map_of (ds ! j) ''_id'' = Some x"
    with assms have "j < length ds" "map_of (ds ! j) ''_id'' = map_of (ds ! i) ''_id''" by simp_all
    with assms(1,2) have "j = i" by (rule_tac distinct_map_nth[of "\<lambda>d. map_of d ''_id''" ds]) auto
    with j show False by simp
  qed
qed

text \<open>Property access raises nothing but a TypeError.\<close>

lemma get_prop_Inl: "get_prop v k = Inl e \<Longrightarrow> e = TypeError"
  by (cases v) simp_all


section \<open>The token issuer\<close>

text \<open>
  Claim C6. POST /jwt with a body whose email is missing (the property is undefined) or
  empty, or falsy in any other way, answers 400 with the error body
  \<^verbatim>\<open>{ error: true, message: "Invalid request" }\<close>; it makes no call at all (the trace is
  empty, so no token is signed), it sets no cookie, and the database is unchanged.
\<close>

theorem post_jwt_rejects_empty_email:
  assumes "get_prop (body req) ''email'' = Inr email" and "\<not> truthy email"
  shows "post_jwt L req db =
    \<lparr>reply = Sent \<lparr>statusCode = 400,
        sent = JObj [(''error'', JBool True), (''message'', JStr ''Invalid request'')],
        cookie = []\<rparr>,
     trace = [], store = db\<rparr>"
  using assms by (simp add: post_jwt_def status_send_def error_message_def)

text \<open>The theorem at a body without email, and at a body whose email is the empty string.\<close>

theorem post_jwt_rejects_empty_email_witness:
  "get_prop (body example_request) ''email'' = Inr JUndefined
   \<and> get_prop (body (example_request\<lparr>body := JObj [(''email'', JStr [])]\<rparr>)) ''email''
       = Inr (JStr [])
   \<and> reply (post_jwt example_libs example_request example_db) =
        Sent \<lparr>statusCode = 400,
          sent = JObj [(''error'', JBool True), (''message'', JStr ''Invalid request'')],
          cookie = []\<rparr>
   \<and> trace (post_jwt example_libs example_request example_db) = []
   \<and> post_jwt example_libs (example_request\<lparr>body := JObj [(''email'', JStr [])]\<rparr>) example_db =
        post_jwt example_libs example_request example_db"
proof -
  have m: "get_prop (body example_request) ''email'' = Inr JUndefined"
    by (simp add: example_request_def field_def)
  have e: "get_prop (body (example_request\<lparr>body := JObj [(''email'', JStr [])]\<rparr>)) ''email''
      = Inr (JStr [])"
    by (simp add: field_def)
  have f: "\<not> truthy JUndefined" "\<not> truthy (JStr [])" by simp_all
  from post_jwt_rejects_empty_email[OF m f(1)] post_jwt_rejects_empty_email[OF e f(2)] m e
  show ?thesis by simp
qed

text \<open>
  Claim C9. POST /jwt with a truthy (non-empty) email, when signing succeeds, answers 200
  with \<^verbatim>\<open>{ success: true }\<close> and sets exactly one cookie: its name is access_token, its
  options are httpOnly, secure, sameSite "none" and a maxAge of 3600000 milliseconds (one
  hour), and its value is the token that \<open>jwt_sign\<close> returned for the payload
  \<^verbatim>\<open>{ email }\<close>, the server secret and the options expiresIn "1h", algorithm HS256. That
  single signing call is the only call the handler makes.
\<close>

theorem post_jwt_sets_cookie:
  assumes "get_prop (body req) ''email'' = Inr email" and "truthy email"
    and "jwt_sign L (JObj [(''email'', email)]) (secret L)
           (JObj [(''expiresIn'', JStr ''1h''), (''algorithm'', JStr ''HS256'')]) = Some token"
  shows "post_jwt L req db =
    \<lparr>reply = Sent \<lparr>statusCode = 200, sent = JObj [(''success'', JBool True)],
        cookie = [SetCookie ''access_token'' (JStr token)
           (JObj [(''httpOnly'', JBool True), (''secure'', JBool True),
                  (''sameSite'', JStr ''none''), (''maxAge'', JNum 3600000)])]\<rparr>,
     trace = [JwtSign (JObj [(''email'', email)])
                (JObj [(''expiresIn'', JStr ''1h''), (''algorithm'', JStr ''HS256'')])],
     store = db\<rparr>"
  using assms by (simp add: post_jwt_def Let_def)

text \<open>The theorem at the email a@x: the cookie carries the token of the example signer.\<close>

theorem post_jwt_sets_cookie_witness:
  "truthy (JStr ''a@x'')
   \<and> reply (post_jwt example_libs (example_request\<lparr>body := JObj [(''email'', JStr ''a@x'')]\<rparr>)
        example_db) =
      Sent \<lparr>statusCode = 200, sent = JObj [(''success'', JBool True)],
        cookie = [SetCookie ''access_token'' (JStr ''k:a@x'')
           (JObj [(''httpOnly'', JBool True), (''secure'', JBool True),
                  (''sameSite'', JStr ''none''), (''maxAge'', JNum 3600000)])]\<rparr>"
proof -
  let ?req = "example_request\<lparr>body := JObj [(''email'', JStr ''a@x'')]\<rparr>"
  have e: "get_prop (body ?req) ''email'' = Inr (JStr ''a@x'')"
    by (simp add: field_def)
  have t: "truthy (JStr ''a@x'')" by simp
  have s: "jwt_sign example_libs (JObj [(''email'', JStr ''a@x'')]) (secret example_libs)
      (JObj [(''expiresIn'', JStr ''1h''), (''algorithm'', JStr ''HS256'')]) = Some ''k:a@x''"
    by (simp add: example_libs_def example_sign_def field_def)
  from post_jwt_sets_cookie[OF e t s] t show ?thesis by simp
qed

section \<open>The guarded order list\<close>

text \<open>
  Claim C3. When the access_token cookie is absent (or empty), or when it is present and
  \<open>jwt_verify\<close> against the server secret reports an error (bad signature, expired),
  the guard answers 401 with the error body
  \<^verbatim>\<open>{ error: true, message: "Unauthorized access by token" }\<close>, the database is neither
  queried nor changed, and the wrapped handler is not run: the result is the same
  whatever handler \<open>next\<close> stands behind the guard. GET /orders is the guard in front of
  \<open>get_orders_handler\<close>, so this is its answer.
\<close>

theorem guard_rejects_missing_or_invalid_cookie:
  assumes "\<not> truthy (field (cookies req) ''access_token'')
     \<or> jwt_verify L (field (cookies req) ''access_token'') (secret L) = None"
  shows "reply (verifyJWT L next req db) =
      Sent \<lparr>statusCode = 401,
        sent = JObj [(''error'', JBool True),
                     (''message'', JStr ''Unauthorized access by token'')],
        cookie = []\<rparr>
    \<and> store (verifyJWT L next req db) = db
    \<and> list_all (\<lambda>e. \<not> is_db_event e) (trace (verifyJWT L next req db))
    \<and> verifyJWT L next req db = verifyJWT L next' req db
    \<and> get_orders L req db = verifyJWT L next req db"
  using assms
  by (auto simp add: verifyJWT_def get_orders_def unauthorized_def status_send_def
      error_message_def Let_def)

text \<open>
  The theorem at a request without cookies, and at a request whose token was signed with
  another secret.
\<close>

theorem guard_rejects_missing_or_invalid_cookie_witness:
  "field (cookies example_request) ''access_token'' = JUndefined
   \<and> jwt_verify example_libs (JStr ''z:a@x'') (secret example_libs) = None
   \<and> reply (get_orders example_libs example_request example_db) =
      Sent \<lparr>statusCode = 401,
        sent = JObj [(''error'', JBool True),
                     (''message'', JStr ''Unauthorized access by token'')],
        cookie = []\<rparr>
   \<and> reply (get_orders example_libs
        (example_request\<lparr>cookies := [(''access_token'', JStr ''z:a@x'')],
                         query := [(''email'', JStr ''a@x'')]\<rparr>) example_db) =
      Sent \<lparr>statusCode = 401,
        sent = JObj [(''error'', JBool True),
                     (''message'', JStr ''Unauthorized access by token'')],
        cookie = []\<rparr>"
proof -
  let ?req = "example_request\<lparr>cookies := [(''access_token'', JStr ''z:a@x'')],
                         query := [(''email'', JStr ''a@x'')]\<rparr>"
  have a: "field (cookies example_request) ''access_token'' = JUndefined"
    by (simp add: example_request_def field_def)
  have b: "jwt_verify example_libs (JStr ''z:a@x'') (secret example_libs) = None"
    by (simp add: example_libs_def example_verify_def)
  have c: "field (cookies ?req) ''access_token'' = JStr ''z:a@x''"
    by (simp add: field_def)
  from a have 1: "\<not> truthy (field (cookies example_request) ''access_token'')
     \<or> jwt_verify example_libs (field (cookies example_request) ''access_token'')
          (secret example_libs) = None"
    by simp
  from b c have 2: "\<not> truthy (field (cookies ?req) ''access_token'')
     \<or> jwt_verify example_libs (field (cookies ?req) ''access_token'')
          (secret example_libs) = None"
    by simp
  from guard_rejects_missing_or_invalid_cookie[OF 1, of "get_orders_handler example_libs" example_db]
    guard_rejects_missing_or_invalid_cookie[OF 2, of "get_orders_handler example_libs" example_db]
    a b
  show ?thesis by simp
qed

text \<open>
  Claim C1. GET /orders with a cookie that verifies, whose payload has the email \<open>a\<close>,
  and with an email query parameter \<open>b\<close> different from \<open>a\<close>, answers 401 with the
  error body \<^verbatim>\<open>{ error: true, message: "Unauthorized access by email" }\<close>; the only call
  made is the verification of the token, so no database query is performed, and the
  database is unchanged.
\<close>

theorem get_orders_rejects_other_email:
  assumes "truthy (field (cookies req) ''access_token'')"
    and "jwt_verify L (field (cookies req) ''access_token'') (secret L) = Some dec"
    and "get_prop dec ''email'' = Inr a"
    and "field (query req) ''email'' = b"
    and "a \<noteq> b"
  shows "get_orders L req db =
    \<lparr>reply = Sent \<lparr>statusCode = 401,
        sent = JObj [(''error'', JBool True),
                     (''message'', JStr ''Unauthorized access by email'')],
        cookie = []\<rparr>,
     trace = [JwtVerify (field (cookies req) ''access_token'')], store = db\<rparr>"
  using assms strict_eq_imp_eq[of a b]
  by (auto simp add: verifyJWT_def get_orders_def get_orders_handler_def unauthorized_def
      status_send_def error_message_def Let_def)

text \<open>The theorem at a token for a@x and the query email b@x.\<close>

theorem get_orders_rejects_other_email_witness:
  "jwt_verify example_libs (JStr ''k:a@x'') (secret example_libs)
     = Some (JObj [(''email'', JStr ''a@x'')])
   \<and> JStr ''a@x'' \<noteq> JStr ''b@x''
   \<and> get_orders example_libs
        (example_request\<lparr>cookies := [(''access_token'', JStr ''k:a@x'')],
                         query := [(''email'', JStr ''b@x'')]\<rparr>) example_db =
    \<lparr>reply = Sent \<lparr>statusCode = 401,
        sent = JObj [(''error'', JBool True),
                     (''message'', JStr ''Unauthorized access by email'')],
        cookie = []\<rparr>,
     trace = [JwtVerify (JStr ''k:a@x'')], store = example_db\<rparr>"
proof -
  let ?req = "example_request\<lparr>cookies := [(''access_token'', JStr ''k:a@x'')],
                         query := [(''email'', JStr ''b@x'')]\<rparr>"
  have c: "field (cookies ?req) ''access_token'' = JStr ''k:a@x''"
    by (simp add: field_def)
  have t: "truthy (field (cookies ?req) ''access_token'')"
    by (simp add: field_def)
  have v: "jwt_verify example_libs (JStr ''k:a@x'') (secret example_libs)
     = Some (JObj [(''email'', JStr ''a@x'')])"
    by (simp add: example_libs_def example_verify_def)
  have v': "jwt_verify example_libs (field (cookies ?req) ''access_token'') (secret example_libs)
     = Some (JObj [(''email'', JStr ''a@x'')])"
    using v c by simp
  have d: "get_prop (JObj [(''email'', JStr ''a@x'')]) ''email'' = Inr (JStr ''a@x'')"
    by (simp add: field_def)
  have q: "field (query ?req) ''email'' = JStr ''b@x''"
    by (simp add: field_def)
  have n: "JStr ''a@x'' \<noteq> JStr ''b@x''" by simp
  from get_orders_rejects_other_email[OF t v' d q n, of example_db] v n c
  show ?thesis by simp
qed

text \<open>
  Claim C10. GET /orders with a cookie that verifies but with no email query parameter
  (absent, or empty) answers 401 with the same error body; no database query is performed
  and no order is returned, whatever the payload of the token is.
\<close>

theorem get_orders_rejects_missing_email:
  assumes "truthy (field (cookies req) ''access_token'')"
    and "jwt_verify L (field (cookies req) ''access_token'') (secret L) = Some dec"
    and "\<not> truthy (field (query req) ''email'')"
  shows "get_orders L req db =
    \<lparr>reply = Sent \<lparr>statusCode = 401,
        sent = JObj [(''error'', JBool True),
                     (''message'', JStr ''Unauthorized access by email'')],
        cookie = []\<rparr>,
     trace = [JwtVerify (field (cookies req) ''access_token'')], store = db\<rparr>"
  using assms
  by (auto simp add: verifyJWT_def get_orders_def get_orders_handler_def unauthorized_def
      status_send_def error_message_def Let_def)

text \<open>The theorem at a request without a query string, and at one with an empty email.\<close>

theorem get_orders_rejects_missing_email_witness:
  "jwt_verify example_libs (JStr ''k:a@x'') (secret example_libs)
     = Some (JObj [(''email'', JStr ''a@x'')])
   \<and> field (query (example_request\<lparr>cookies := [(''access_token'', JStr ''k:a@x'')]\<rparr>)) ''email''
     = JUndefined
   \<and> get_orders example_libs
        (example_request\<lparr>cookies := [(''access_token'', JStr ''k:a@x'')]\<rparr>) example_db =
    \<lparr>reply = Sent \<lparr>statusCode = 401,
        sent = JObj [(''error'', JBool True),
                     (''message'', JStr ''Unauthorized access by email'')],
        cookie = []\<rparr>,
     trace = [JwtVerify (JStr ''k:a@x'')], store = example_db\<rparr>
   \<and> get_orders example_libs
        (example_request\<lparr>cookies := [(''access_token'', JStr ''k:a@x'')],
                         query := [(''email'', JStr [])]\<rparr>) example_db =
      get_orders example_libs
        (example_request\<lparr>cookies := [(''access_token'', JStr ''k:a@x'')]\<rparr>) example_db"
proof -
  let ?r1 = "example_request\<lparr>cookies := [(''access_token'', JStr ''k:a@x'')]\<rparr>"
  let ?r2 = "example_request\<lparr>cookies := [(''access_token'', JStr ''k:a@x'')],
                         query := [(''email'', JStr [])]\<rparr>"
  have c: "field (cookies ?r1) ''access_token'' = JStr ''k:a@x''"
      "field (cookies ?r2) ''access_token'' = JStr ''k:a@x''"
    by (simp_all add: field_def)
  have v: "jwt_verify example_libs (JStr ''k:a@x'') (secret example_libs)
     = Some (JObj [(''email'', JStr ''a@x'')])"
    by (simp add: example_libs_def example_verify_def)
  have q1: "field (query ?r1) ''email'' = JUndefined"
    by (simp add: example_request_def field_def)
  have q2: "field (query ?r2) ''email'' = JStr []"
    by (simp add: field_def)
  have 1: "get_orders example_libs ?r1 example_db =
    \<lparr>reply = Sent \<lparr>statusCode = 401,
        sent = JObj [(''error'', JBool True),
                     (''message'', JStr ''Unauthorized access by email'')],
        cookie = []\<rparr>,
     trace = [JwtVerify (field (cookies ?r1) ''access_token'')], store = example_db\<rparr>"
    by (rule get_orders_rejects_missing_email[where dec = "JObj [(''email'', JStr ''a@x'')]"])
      (simp_all add: field_def v example_request_def)
  have 2: "get_orders example_libs ?r2 example_db =
    \<lparr>reply = Sent \<lparr>statusCode = 401,
        sent = JObj [(''error'', JBool True),
                     (''message'', JStr ''Unauthorized access by email'')],
        cookie = []\<rparr>,
     trace = [JwtVerify (field (cookies ?r2) ''access_token'')], store = example_db\<rparr>"
    by (rule get_orders_rejects_missing_email[where dec = "JObj [(''email'', JStr ''a@x'')]"])
      (simp_all add: field_def v)
  from 1 2 c v q1 show ?thesis by simp
qed

text \<open>
  Claim C2. GET /orders with a cookie that verifies for the email \<open>A\<close> (a non-empty
  string: an empty query email is refused before, see C10) and with the email query
  parameter equal to \<open>A\<close> answers 200, and the body is the array of exactly the documents
  of the orders collection whose email field is \<open>A\<close>, in the order of the collection; the
  one database call is that \<^verbatim>\<open>find\<close>, and the database is unchanged.
\<close>

theorem get_orders_lists_own_orders:
  assumes "truthy (field (cookies req) ''access_token'')"
    and "jwt_verify L (field (cookies req) ''access_token'') (secret L) = Some dec"
    and "get_prop dec ''email'' = Inr (JStr A)"
    and "field (query req) ''email'' = JStr A"
    and "A \<noteq> []"
  shows "get_orders L req db =
    \<lparr>reply = Sent \<lparr>statusCode = 200,
        sent = JArr (map JObj (filter (\<lambda>d. map_of d ''email'' = Some (JStr A)) (orders db))),
        cookie = []\<rparr>,
     trace = [JwtVerify (field (cookies req) ''access_token''),
              Find Orders (FieldEq ''email'' (JStr A))],
     store = db\<rparr>"
  using assms
  by (simp add: verifyJWT_def get_orders_def get_orders_handler_def find_toArray_def send_def
      status_send_def Let_def matches_FieldEq)

text \<open>The theorem at a token for a@x: two of the three example orders are listed.\<close>

theorem get_orders_lists_own_orders_witness:
  "jwt_verify example_libs (JStr ''k:a@x'') (secret example_libs)
     = Some (JObj [(''email'', JStr ''a@x'')])
   \<and> reply (get_orders example_libs
        (example_request\<lparr>cookies := [(''access_token'', JStr ''k:a@x'')],
                         query := [(''email'', JStr ''a@x'')]\<rparr>) example_db) =
     Sent \<lparr>statusCode = 200,
        sent = JArr
          [JObj [(''_id'', JOid ''0000000000000000000000b1''), (''email'', JStr ''a@x''),
                 (''status'', JStr ''pending'')],
           JObj [(''_id'', JOid ''0000000000000000000000b3''), (''email'', JStr ''a@x'')]],
        cookie = []\<rparr>"
proof -
  let ?req = "example_request\<lparr>cookies := [(''access_token'', JStr ''k:a@x'')],
                         query := [(''email'', JStr ''a@x'')]\<rparr>"
  have c: "field (cookies ?req) ''access_token'' = JStr ''k:a@x''"
    by (simp add: field_def)
  have v: "jwt_verify example_libs (JStr ''k:a@x'') (secret example_libs)
     = Some (JObj [(''email'', JStr ''a@x'')])"
    by (simp add: example_libs_def example_verify_def)
  have 1: "get_orders example_libs ?req example_db =
    \<lparr>reply = Sent \<lparr>statusCode = 200,
        sent = JArr (map JObj (filter (\<lambda>d. map_of d ''email'' = Some (JStr ''a@x''))
                 (orders example_db))),
        cookie = []\<rparr>,
     trace = [JwtVerify (field (cookies ?req) ''access_token''),
              Find Orders (FieldEq ''email'' (JStr ''a@x''))],
     store = example_db\<rparr>"
    by (rule get_orders_lists_own_orders[where dec = "JObj [(''email'', JStr ''a@x'')]"])
      (simp_all add: field_def v)
  from 1 v show ?thesis by (simp add: example_db_def)
qed

section \<open>Searching the catalog\<close>




section \<open>Effects on the collections\<close>

text \<open>
  Claim C7. Whatever the route and the request, the services collection after the handler
  is the services collection before it, and the trace holds no insert, update or delete
  on it: the only calls on the services collection are \<^verbatim>\<open>find\<close> and \<^verbatim>\<open>findOne\<close>. This
  holds for the routes of index.js and for those of part_000.
\<close>

theorem services_never_mutated:
  "services (store (handle L r req db)) = services db
   \<and> list_all (\<lambda>e. \<not> writes Services e) (trace (handle L r req db))
   \<and> services (store (handle_part_000 L r req db)) = services db
   \<and> list_all (\<lambda>e. \<not> writes Services e) (trace (handle_part_000 L r req db))"
  by (cases r)
    (auto simp add: post_jwt_def post_logout_def get_services_def get_services_id_def
      post_orders_def get_orders_def get_orders_handler_def patch_orders_id_def
      delete_orders_id_def get_root_def get_services_part_000_def post_orders_part_000_def
      get_orders_part_000_def verifyJWT_def Let_def
      split: sum.splits option.splits prod.splits if_splits)

text \<open>
  The theorem at an update and at an insert of an order, with the trace of a lookup by
  identifier.
\<close>

theorem services_never_mutated_witness:
  "services (store (handle example_libs PATCH_orders_id
      (example_request\<lparr>params_id := ''0000000000000000000000b1'',
                       body := JObj [(''status'', JStr ''done'')]\<rparr>) example_db))
     = services example_db
   \<and> services (store (handle example_libs POST_orders
      (example_request\<lparr>body := JObj [(''email'', JStr ''c@x'')]\<rparr>) example_db))
     = services example_db
   \<and> trace (handle example_libs GET_services_id
      (example_request\<lparr>params_id := ''0000000000000000000000a1''\<rparr>) example_db)
     = [FindOne Services (FieldEq ''_id'' (JOid ''0000000000000000000000a1''))
          [''title'', ''price'']]"
proof -
  have t: "trace (handle example_libs GET_services_id
      (example_request\<lparr>params_id := ''0000000000000000000000a1''\<rparr>) example_db)
     = [FindOne Services (FieldEq ''_id'' (JOid ''0000000000000000000000a1''))
          [''title'', ''price'']]"
    by (simp add: get_services_id_def example_libs_def example_ObjectId_def findOne_def Let_def)
  from services_never_mutated[of example_libs PATCH_orders_id
      "example_request\<lparr>params_id := ''0000000000000000000000b1'',
                       body := JObj [(''status'', JStr ''done'')]\<rparr>" example_db]
    services_never_mutated[of example_libs POST_orders
      "example_request\<lparr>body := JObj [(''email'', JStr ''c@x'')]\<rparr>" example_db]
    t
  show ?thesis by simp
qed

text \<open>
  Claim C8. PATCH /orders/:id with a well-formed identifier \<open>oid\<close> and a body whose status
  reads \<open>v\<close>: the services collection is unchanged; the orders collection keeps its
  length; a document whose \<open>_id\<close> is not \<open>oid\<close> is unchanged; in every document every
  field other than status is unchanged; at most one document changes; a document that
  changes has the \<open>_id\<close> \<open>oid\<close> and the status \<open>v\<close> afterwards; the first document with
  the \<open>_id\<close> \<open>oid\<close> has the status \<open>v\<close> afterwards, and when the identifiers of the
  collection are distinct, as the database keeps them, that is the document with this
  \<open>_id\<close>. The value \<open>v\<close> is what \<^verbatim>\<open>req.body.status\<close> reads (undefined when the body has
  no status; how the driver serialises a value is not modelled).
\<close>

theorem patch_sets_only_status:
  assumes "get_prop (body req) ''status'' = Inr v"
    and "mkObjectId L (params_id req) = Some oid"
  shows "services (store (patch_orders_id L req db)) = services db
    \<and> length (orders (store (patch_orders_id L req db))) = length (orders db)
    \<and> (\<forall>i<length (orders db). map_of (orders db ! i) ''_id'' \<noteq> Some (JOid oid) \<longrightarrow>
          orders (store (patch_orders_id L req db)) ! i = orders db ! i)
    \<and> (\<forall>i<length (orders db). \<forall>k. k \<noteq> ''status'' \<longrightarrow>
          map_of (orders (store (patch_orders_id L req db)) ! i) k = map_of (orders db ! i) k)
    \<and> (\<forall>i<length (orders db). \<forall>j<length (orders db).
          orders (store (patch_orders_id L req db)) ! i \<noteq> orders db ! i \<and>
          orders (store (patch_orders_id L req db)) ! j \<noteq> orders db ! j \<longrightarrow> i = j)
    \<and> (\<forall>i<length (orders db).
          orders (store (patch_orders_id L req db)) ! i \<noteq> orders db ! i \<longrightarrow>
          map_of (orders db ! i) ''_id'' = Some (JOid oid) \<and>
          map_of (orders (store (patch_orders_id L req db)) ! i) ''status'' = Some v)
    \<and> (\<forall>i<length (orders db).
          map_of (orders db ! i) ''_id'' = Some (JOid oid) \<and>
          (\<forall>j<i. map_of (orders db ! j) ''_id'' \<noteq> Some (JOid oid)) \<longrightarrow>
          map_of (orders (store (patch_orders_id L req db)) ! i) ''status'' = Some v)
    \<and> (distinct (map (\<lambda>d. map_of d ''_id'') (orders db)) \<longrightarrow>
         (\<forall>i<length (orders db). map_of (orders db ! i) ''_id'' = Some (JOid oid) \<longrightarrow>
            map_of (orders (store (patch_orders_id L req db)) ! i) ''status'' = Some v))"
proof -
  let ?P = "\<lambda>d. map_of d ''_id'' = Some (JOid oid)"
  let ?os = "orders db"
  let ?os' = "set_first ?P ''status'' v ?os"
  have st: "store (patch_orders_id L req db) = db\<lparr>orders := ?os'\<rparr>"
    using assms by (simp add: patch_orders_id_def updateOne_def matches_FieldEq)
  have 1: "length ?os' = length ?os" by (rule length_set_first)
  have 2: "\<forall>i<length ?os. \<not> ?P (?os ! i) \<longrightarrow> ?os' ! i = ?os ! i"
    by (simp add: set_first_other)
  have 3: "\<forall>i<length ?os. \<forall>k. k \<noteq> ''status'' \<longrightarrow> map_of (?os' ! i) k = map_of (?os ! i) k"
    by (simp add: set_first_fields)
  have 4: "\<forall>i<length ?os. \<forall>j<length ?os. ?os' ! i \<noteq> ?os ! i \<and> ?os' ! j \<noteq> ?os ! j \<longrightarrow> i = j"
  proof (intro allI impI)
    fix i j assume i: "i < length ?os" and j: "j < length ?os"
      and ch: "?os' ! i \<noteq> ?os ! i \<and> ?os' ! j \<noteq> ?os ! j"
    from set_first_changed[OF i] ch have a: "?P (?os ! i)" "\<forall>j<i. \<not> ?P (?os ! j)" by blast+
    from set_first_changed[OF j] ch have b: "?P (?os ! j)" "\<forall>i<j. \<not> ?P (?os ! i)" by blast+
    from a b show "i = j" by (meson linorder_neqE_nat)
  qed
  have 5: "\<forall>i<length ?os. ?os' ! i \<noteq> ?os ! i \<longrightarrow>
      ?P (?os ! i) \<and> map_of (?os' ! i) ''status'' = Some v"
  proof (intro allI impI)
    fix i assume i: "i < length ?os" and ch: "?os' ! i \<noteq> ?os ! i"
    from set_first_changed[OF i ch] show "?P (?os ! i) \<and> map_of (?os' ! i) ''status'' = Some v"
      by (simp add: update_conv')
  qed
  have 6: "\<forall>i<length ?os. ?P (?os ! i) \<and> (\<forall>j<i. \<not> ?P (?os ! j)) \<longrightarrow>
      map_of (?os' ! i) ''status'' = Some v"
    by (simp add: set_first_hit update_conv')
  have 7: "distinct (map (\<lambda>d. map_of d ''_id'') ?os) \<longrightarrow>
      (\<forall>i<length ?os. ?P (?os ! i) \<longrightarrow> map_of (?os' ! i) ''status'' = Some v)"
    by (simp add: set_first_unique update_conv')
  from st 1 2 3 4 5 6 7 show ?thesis by simp
qed

text \<open>The theorem on the example orders: the second order gets the status done.\<close>

theorem patch_sets_only_status_witness:
  "mkObjectId example_libs ''0000000000000000000000b2'' = Some ''0000000000000000000000b2''
   \<and> orders (store (patch_orders_id example_libs
        (example_request\<lparr>params_id := ''0000000000000000000000b2'',
                         body := JObj [(''status'', JStr ''done'')]\<rparr>) example_db)) =
      [[(''_id'', JOid ''0000000000000000000000b1''), (''email'', JStr ''a@x''),
        (''status'', JStr ''pending'')],
       [(''_id'', JOid ''0000000000000000000000b2''), (''email'', JStr ''b@x''),
        (''status'', JStr ''done'')],
       [(''_id'', JOid ''0000000000000000000000b3''), (''email'', JStr ''a@x'')]]
   \<and> services (store (patch_orders_id example_libs
        (example_request\<lparr>params_id := ''0000000000000000000000b2'',
                         body := JObj [(''status'', JStr ''done'')]\<rparr>) example_db)) =
      services example_db"
proof -
  let ?req = "example_request\<lparr>params_id := ''0000000000000000000000b2'',
                         body := JObj [(''status'', JStr ''done'')]\<rparr>"
  have s: "get_prop (body ?req) ''status'' = Inr (JStr ''done'')"
    by (simp add: field_def)
  have i: "mkObjectId example_libs ''0000000000000000000000b2''
      = Some ''0000000000000000000000b2''"
    by (simp add: example_libs_def example_ObjectId_def)
  have i': "mkObjectId example_libs (params_id ?req) = Some ''0000000000000000000000b2''"
    using i by simp
  have o: "orders (store (patch_orders_id example_libs ?req example_db)) =
      [[(''_id'', JOid ''0000000000000000000000b1''), (''email'', JStr ''a@x''),
        (''status'', JStr ''pending'')],
       [(''_id'', JOid ''0000000000000000000000b2''), (''email'', JStr ''b@x''),
        (''status'', JStr ''done'')],
       [(''_id'', JOid ''0000000000000000000000b3''), (''email'', JStr ''a@x'')]]"
    using i by (simp add: patch_orders_id_def updateOne_def example_db_def field_def)
  from patch_sets_only_status[OF s i', of example_db] i o
  show ?thesis by simp
qed

section \<open>Malformed identifiers\<close>

text \<open>
  The handlers of GET /services/:id, PATCH /orders/:id and DELETE /orders/:id do not
  validate the identifier: they build it with \<^verbatim>\<open>new ObjectId(id)\<close>, outside any
  try/catch. On a malformed identifier the constructor throws, and the handler is left by
  the exception before any database call, without a response of its own. PATCH reads
  \<^verbatim>\<open>req.body.status\<close> first, which raises a TypeError when there is no body.
\<close>

lemma malformed_id_throws:
  assumes "mkObjectId L (params_id req) = None"
  shows "get_services_id L req db = \<lparr>reply = Threw BSONError, trace = [], store = db\<rparr>
    \<and> delete_orders_id L req db = \<lparr>reply = Threw BSONError, trace = [], store = db\<rparr>
    \<and> (patch_orders_id L req db = \<lparr>reply = Threw BSONError, trace = [], store = db\<rparr>
       \<or> patch_orders_id L req db = \<lparr>reply = Threw TypeError, trace = [], store = db\<rparr>)"
  using assms
  by (auto simp add: get_services_id_def delete_orders_id_def patch_orders_id_def
      split: sum.splits dest: get_prop_Inl)

text \<open>
  Claim C4. A request to GET /services/:id, PATCH /orders/:id or DELETE /orders/:id whose
  id is not a well-formed identifier is answered with the server-error status 500, not
  with a not-found response: the handler sends no response of its own (so no 404 either),
  it is left by the exception, which the framework answers with 500; no database call is
  made and the database is unchanged.
\<close>

theorem malformed_id_server_error:
  assumes "mkObjectId L (params_id req) = None"
  shows "http_status (get_services_id L req db) = 500
    \<and> http_status (patch_orders_id L req db) = 500
    \<and> http_status (delete_orders_id L req db) = 500
    \<and> reply (get_services_id L req db) \<noteq> Sent res
    \<and> reply (patch_orders_id L req db) \<noteq> Sent res
    \<and> reply (delete_orders_id L req db) \<noteq> Sent res
    \<and> trace (get_services_id L req db) = []
    \<and> trace (patch_orders_id L req db) = []
    \<and> trace (delete_orders_id L req db) = []
    \<and> store (get_services_id L req db) = db
    \<and> store (patch_orders_id L req db) = db
    \<and> store (delete_orders_id L req db) = db"
proof -
  from malformed_id_throws[OF assms, of db]
  have g: "get_services_id L req db = \<lparr>reply = Threw BSONError, trace = [], store = db\<rparr>"
    and d: "delete_orders_id L req db = \<lparr>reply = Threw BSONError, trace = [], store = db\<rparr>"
    and p: "patch_orders_id L req db = \<lparr>reply = Threw BSONError, trace = [], store = db\<rparr>
       \<or> patch_orders_id L req db = \<lparr>reply = Threw TypeError, trace = [], store = db\<rparr>"
    by simp_all
  from p have p': "http_status (patch_orders_id L req db) = 500
      \<and> reply (patch_orders_id L req db) \<noteq> Sent res
      \<and> trace (patch_orders_id L req db) = []
      \<and> store (patch_orders_id L req db) = db"
    by (auto simp add: http_status_def)
  from g d p' show ?thesis by (simp add: http_status_def)
qed

text \<open>The theorem at the identifier abc, without and with a body for PATCH.\<close>

theorem malformed_id_server_error_witness:
  "mkObjectId example_libs ''abc'' = None
   \<and> http_status (get_services_id example_libs (example_request\<lparr>params_id := ''abc''\<rparr>)
        example_db) = 500
   \<and> http_status (patch_orders_id example_libs
        (example_request\<lparr>params_id := ''abc'', body := JObj [(''status'', JStr ''done'')]\<rparr>)
        example_db) = 500
   \<and> http_status (delete_orders_id example_libs (example_request\<lparr>params_id := ''abc''\<rparr>)
        example_db) = 500
   \<and> reply (get_services_id example_libs (example_request\<lparr>params_id := ''abc''\<rparr>)
        example_db) = Threw BSONError
   \<and> store (delete_orders_id example_libs (example_request\<lparr>params_id := ''abc''\<rparr>)
        example_db) = example_db"
proof -
  let ?r1 = "example_request\<lparr>params_id := ''abc''\<rparr>"
  let ?r2 = "example_request\<lparr>params_id := ''abc'', body := JObj [(''status'', JStr ''done'')]\<rparr>"
  have i: "mkObjectId example_libs ''abc'' = None"
    by (simp add: example_libs_def example_ObjectId_def)
  then have i1: "mkObjectId example_libs (params_id ?r1) = None"
    and i2: "mkObjectId example_libs (params_id ?r2) = None"
    by simp_all
  have t: "reply (get_services_id example_libs ?r1 example_db) = Threw BSONError"
    using i by (simp add: get_services_id_def)
  from malformed_id_server_error[OF i1, of example_db]
    malformed_id_server_error[OF i2, of example_db] i t
  show ?thesis by simp
qed

text \<open>
  For comparison, a route that catches: when the database rejects the search expression,
  GET /services answers 500 itself.
\<close>

lemma get_services_catches:
  assumes "regex L (js_or (field (query req) ''search'') (JStr [])) ''i'' = None"
  shows "reply (get_services L req db) =
    Sent \<lparr>statusCode = 500,
      sent = JObj [(''error'', JBool True), (''message'', JStr ''Failed to fetch services'')],
      cookie = []\<rparr>"
  using assms
  by (simp add: get_services_def find_toArray_def Let_def status_send_def error_message_def)

end
